theory Spec2Isabelle
  imports Complex_Main "HOL-Library.Code_Target_Nat"
begin

section \<open>Python values used by the composer\<close>

text \<open>
  Errors are values. The constructors are the Python exceptions that the modelled
  statements can raise: a missing dictionary key, an index out of range, a failed
  conversion or a non-positive total weight, and networkx's error for a node that
  is not in the graph.
\<close>

datatype error =
    KeyError string
  | IndexError
  | ValueError
  | NetworkXError string

text \<open>
  A Python \<open>dict\<close> keeps its keys in insertion order, and the order of the
  neighbours of a node is the order in which \<open>random.choices\<close> sees them, so a
  dictionary is an association list. \<open>d[k] = v\<close> replaces the value of a key that
  is present, where it stands, and appends a new key at the end.
\<close>

fun dict_set :: "('k \<times> 'v) list \<Rightarrow> 'k \<Rightarrow> 'v \<Rightarrow> ('k \<times> 'v) list" where
  "dict_set [] k v = [(k, v)]"
| "dict_set ((k', v') # d) k v =
     (if k' = k then (k, v) # d else (k', v') # dict_set d k v)"

definition dict_get :: "('k \<times> 'v) list \<Rightarrow> 'k \<Rightarrow> 'v option" where
  "dict_get d k = map_of d k"

definition dict_keys :: "('k \<times> 'v) list \<Rightarrow> 'k list" where
  "dict_keys d = map fst d"

text \<open>
  \<open>f"{note}{octave}"\<close> writes the note name followed by the decimal digits of
  the octave, with a minus sign for a negative integer.
\<close>

definition digit_char :: "nat \<Rightarrow> char" where
  "digit_char d = ''0123456789'' ! (d mod 10)"

fun str_nat :: "nat \<Rightarrow> string" where
  "str_nat n = (if n < 10 then [digit_char n] else str_nat (n div 10) @ [digit_char (n mod 10)])"

declare str_nat.simps [simp del]

definition str_int :: "int \<Rightarrow> string" where
  "str_int i = (if i < 0 then CHR ''-'' # str_nat (nat (- i)) else str_nat (nat i))"

definition note_label :: "string \<Rightarrow> int \<Rightarrow> string" where
  "note_label note octave = note @ str_int octave"

section \<open>The directed graph of networkx\<close>

text \<open>
  \<open>nx.DiGraph\<close> holds a dictionary of nodes and, for every node, a dictionary
  from each successor to the attributes of the edge. The only edge attribute of this
  program is \<open>weight\<close>, so the attribute dictionary is the weight. The
  predecessor dictionary that networkx keeps beside it mirrors \<open>succ\<close> and is
  never read by the program; it is left out. Weights are Python floats, modelled as
  exact rationals.
\<close>

record DiGraph =
  node :: "string list"
  succ :: "(string \<times> (string \<times> rat) list) list"

definition empty_graph :: DiGraph where
  "empty_graph = \<lparr>node = [], succ = []\<rparr>"

definition add_node :: "DiGraph \<Rightarrow> string \<Rightarrow> DiGraph" where
  "add_node G n =
     (if dict_get (succ G) n = None
      then G\<lparr>node := node G @ [n], succ := succ G @ [(n, [])]\<rparr>
      else G)"

definition add_edge :: "DiGraph \<Rightarrow> string \<Rightarrow> string \<Rightarrow> rat \<Rightarrow> DiGraph" where
  "add_edge G u v w =
     (let G1 = add_node G u;
          G2 = add_node G1 v;
          adj_u = (case dict_get (succ G2) u of None \<Rightarrow> [] | Some d \<Rightarrow> d)
      in G2\<lparr>succ := dict_set (succ G2) u (dict_set adj_u v w)\<rparr>)"

definition neighbors :: "DiGraph \<Rightarrow> string \<Rightarrow> error + string list" where
  "neighbors G n =
     (case dict_get (succ G) n of
        None \<Rightarrow> Inl (NetworkXError n)
      | Some d \<Rightarrow> Inr (dict_keys d))"

definition edge_weight :: "DiGraph \<Rightarrow> string \<Rightarrow> string \<Rightarrow> error + rat" where
  "edge_weight G u v =
     (case dict_get (succ G) u of
        None \<Rightarrow> Inl (KeyError u)
      | Some d \<Rightarrow>
          (case dict_get d v of
             None \<Rightarrow> Inl (KeyError v)
           | Some w \<Rightarrow> Inr w))"

section \<open>The composer\<close>

record MusicComposer =
  notes' :: "string list"
  note_to_midi :: "(string \<times> int) list"
  octaves :: "int list"
  durations :: "rat list"
  graph :: DiGraph

text \<open>
  \<open>_create_note_graph\<close>: the first pair of loops adds a node for every octave
  and note; the second adds, for the note at index \<open>i\<close> of an octave, the edge to
  the next note and the edge to the previous note of the same octave (weight 0.7,
  indices modulo the number of notes, Python's \<open>%\<close> being the floor modulus), and
  an edge to the same note of every other octave (weight 0.3).
\<close>

definition add_octave_edges :: "MusicComposer \<Rightarrow> string \<Rightarrow> int \<Rightarrow> DiGraph \<Rightarrow> DiGraph" where
  "add_octave_edges self note octave G =
     fold (\<lambda>other_octave G.
             if other_octave \<noteq> octave
             then add_edge G (note_label note octave) (note_label note other_octave) (3 / 10)
             else G)
          (octaves self) G"

definition add_note_edges :: "MusicComposer \<Rightarrow> int \<Rightarrow> nat \<times> string \<Rightarrow> DiGraph \<Rightarrow> DiGraph" where
  "add_note_edges self octave p G =
     (case p of (i, note) \<Rightarrow>
        let next_idx = (int i + 1) mod int (length (notes' self));
            prev_idx = (int i - 1) mod int (length (notes' self));
            G1 = add_edge G (note_label note octave)
                   (note_label (notes' self ! nat next_idx) octave) (7 / 10);
            G2 = add_edge G1 (note_label note octave)
                   (note_label (notes' self ! nat prev_idx) octave) (7 / 10)
        in add_octave_edges self note octave G2)"

definition create_note_graph :: "MusicComposer \<Rightarrow> DiGraph" where
  "create_note_graph self =
     (let G0 = fold (\<lambda>octave G. fold (\<lambda>note G. add_node G (note_label note octave))
                                     (notes' self) G)
                    (octaves self) empty_graph
      in fold (\<lambda>octave G. fold (add_note_edges self octave) (enumerate 0 (notes' self)) G)
              (octaves self) G0)"

text \<open>
  \<open>__init__\<close> sets the four tables and then builds the graph from them. The graph
  attribute does not exist before the last assignment; the record holds the empty
  graph until then.
\<close>

definition MusicComposer_init :: MusicComposer where
  "MusicComposer_init =
     (let self = \<lparr>notes' = [''C'', ''D'', ''E'', ''F'', ''G'', ''A'', ''B''],
                  note_to_midi = [(''C'', 60), (''D'', 62), (''E'', 64), (''F'', 65),
                                  (''G'', 67), (''A'', 69), (''B'', 71)],
                  octaves = [4, 5],
                  durations = [1 / 4, 1 / 2, 1],
                  graph = empty_graph\<rparr>
      in self\<lparr>graph := create_note_graph self\<rparr>)"

text \<open>
  \<open>note_to_midi_number\<close> reads the first character of the note as its name and
  converts the second character with \<open>int\<close>; a note shorter than two characters
  raises IndexError, a second character that is not a decimal digit raises
  ValueError, and a name that is not in the table raises KeyError.
\<close>

definition int_of_char :: "char \<Rightarrow> int option" where
  "int_of_char c =
     map_of [(CHR ''0'', 0), (CHR ''1'', 1), (CHR ''2'', 2), (CHR ''3'', 3), (CHR ''4'', 4),
             (CHR ''5'', 5), (CHR ''6'', 6), (CHR ''7'', 7), (CHR ''8'', 8), (CHR ''9'', 9)] c"

definition note_to_midi_number :: "MusicComposer \<Rightarrow> string \<Rightarrow> error + int" where
  "note_to_midi_number self note =
     (case note of
        [] \<Rightarrow> Inl IndexError
      | c0 # rest \<Rightarrow>
          (case rest of
             [] \<Rightarrow> Inl IndexError
           | c1 # _ \<Rightarrow>
               (case int_of_char c1 of
                  None \<Rightarrow> Inl ValueError
                | Some octave \<Rightarrow>
                    (case dict_get (note_to_midi self) [c0] of
                       None \<Rightarrow> Inl (KeyError [c0])
                     | Some base \<Rightarrow> Inr (base + (octave - 4) * 12)))))"

section \<open>The random source\<close>

text \<open>
  The module \<open>random\<close> is a global generator. Here it is an explicit argument:
  the sequence of raw words the generator delivers, one word for each call of the
  library. \<open>random.random()\<close> builds a float from 53 random bits, so its value is
  \<open>k / 2^53\<close> for some \<open>k < 2^53\<close>, here the word reduced modulo \<open>2^53\<close>;
  \<open>random.choice\<close> indexes the sequence with a number below its length, here
  the word reduced modulo the length, and raises IndexError on an empty sequence.
  No property proved below depends on which words the generator delivers.
\<close>

type_synonym rng = "nat \<Rightarrow> nat"

definition random_random :: "nat \<Rightarrow> rat" where
  "random_random r = of_nat (r mod 2 ^ 53) / 2 ^ 53"

definition random_choice :: "'a list \<Rightarrow> nat \<Rightarrow> error + 'a" where
  "random_choice seq r = (if seq = [] then Inl IndexError else Inr (seq ! (r mod length seq)))"

text \<open>
  \<open>random.choices(population, weights)\<close> with \<open>k = 1\<close>: the running sums of the
  weights are computed (\<open>itertools.accumulate\<close>), their number must be the size
  of the population, the total must be positive, and the element returned is the
  one at the index where \<open>bisect\<close> places \<open>random() * total\<close> among the running
  sums, searching the indices from 0 to \<open>n - 1\<close> by halving. The search reads
  only indices below \<open>hi\<close>, which are inside the list of running sums.
\<close>

fun running_sums :: "rat \<Rightarrow> rat list \<Rightarrow> rat list" where
  "running_sums acc [] = []"
| "running_sums acc (w # ws) = (acc + w) # running_sums (acc + w) ws"

fun accumulate :: "rat list \<Rightarrow> rat list" where
  "accumulate [] = []"
| "accumulate (w # ws) = w # running_sums w ws"

function bisect :: "rat list \<Rightarrow> rat \<Rightarrow> nat \<Rightarrow> nat \<Rightarrow> nat" where
  "bisect a x lo hi =
     (if lo < hi
      then (if x < a ! ((lo + hi) div 2)
            then bisect a x lo ((lo + hi) div 2)
            else bisect a x ((lo + hi) div 2 + 1) hi)
      else lo)"
  by pat_completeness auto
termination
  by (relation "measure (\<lambda>(a, x, lo, hi). hi - lo)") auto

declare bisect.simps [simp del]

definition random_choices :: "'a list \<Rightarrow> rat list \<Rightarrow> nat \<Rightarrow> error + 'a" where
  "random_choices population weights r =
     (let n = length population;
          cum_weights = accumulate weights
      in if length cum_weights \<noteq> n then Inl ValueError
         else if cum_weights = [] then Inl IndexError
         else if last cum_weights \<le> 0 then Inl ValueError
         else Inr (population ! bisect cum_weights (random_random r * last cum_weights) 0 (n - 1)))"

section \<open>Melody generation\<close>

record mood_profile =
  weight_mul :: rat
  duration_pref :: rat

definition mood_weights :: "(string \<times> mood_profile) list" where
  "mood_weights =
     [(''happy'', \<lparr>weight_mul = 12 / 10, duration_pref = 1 / 4\<rparr>),
      (''sad'', \<lparr>weight_mul = 8 / 10, duration_pref = 1\<rparr>),
      (''energetic'', \<lparr>weight_mul = 15 / 10, duration_pref = 1 / 4\<rparr>),
      (''calm'', \<lparr>weight_mul = 6 / 10, duration_pref = 1 / 2\<rparr>)]"

text \<open>
  The list comprehension of lines 68 to 70: for each neighbour, the weight of the
  edge from the current note (a lookup in the graph), times the multiplier of the
  mood (a lookup in the mood table, which raises KeyError for an unknown mood). The
  lookups are made anew for every neighbour, the graph first.
\<close>

fun edge_weights ::
  "DiGraph \<Rightarrow> (string \<times> mood_profile) list \<Rightarrow> string \<Rightarrow> string \<Rightarrow> string list \<Rightarrow> error + rat list"
where
  "edge_weights G mw mood current_note [] = Inr []"
| "edge_weights G mw mood current_note (next_note # rest) =
     (case edge_weight G current_note next_note of
        Inl e \<Rightarrow> Inl e
      | Inr w \<Rightarrow>
          (case dict_get mw mood of
             None \<Rightarrow> Inl (KeyError mood)
           | Some p \<Rightarrow>
               (case edge_weights G mw mood current_note rest of
                  Inl e \<Rightarrow> Inl e
                | Inr ws \<Rightarrow> Inr (w * weight_mul p # ws))))"

text \<open>
  Lines 72 to 76: the weights are divided by their sum when the sum is positive,
  and replaced by the uniform weights \<open>1 / len(neighbors)\<close> otherwise.
\<close>

definition normalize_weights :: "rat list \<Rightarrow> nat \<Rightarrow> rat list" where
  "normalize_weights ews n =
     (let total_weight = sum_list ews
      in if total_weight > 0 then map (\<lambda>w. w / total_weight) ews
         else replicate n (1 / of_nat n))"

definition transition_weights ::
  "DiGraph \<Rightarrow> (string \<times> mood_profile) list \<Rightarrow> string \<Rightarrow> string \<Rightarrow> string list \<Rightarrow> error + rat list"
where
  "transition_weights G mw mood current_note nbrs =
     (case edge_weights G mw mood current_note nbrs of
        Inl e \<Rightarrow> Inl e
      | Inr ews \<Rightarrow> Inr (normalize_weights ews (length nbrs)))"

text \<open>
  The loop \<open>for _ in range(length)\<close>, with the number of iterations left, the
  number \<open>k\<close> of random words already used, the current note and the two lists
  built so far. An iteration appends the current note, stops the loop when the
  note has no neighbour, and otherwise draws the next note and one intensity.
\<close>

fun walk ::
  "MusicComposer \<Rightarrow> (string \<times> mood_profile) list \<Rightarrow> string \<Rightarrow> rng \<Rightarrow> nat \<Rightarrow> nat \<Rightarrow> string \<Rightarrow>
   string list \<Rightarrow> rat list \<Rightarrow> error + (string list \<times> rat list)"
where
  "walk self mw mood rnd 0 k current_note melody weights = Inr (melody, weights)"
| "walk self mw mood rnd (Suc n) k current_note melody weights =
     (case neighbors (graph self) current_note of
        Inl e \<Rightarrow> Inl e
      | Inr nbrs \<Rightarrow>
          if nbrs = [] then Inr (melody @ [current_note], weights)
          else
            (case transition_weights (graph self) mw mood current_note nbrs of
               Inl e \<Rightarrow> Inl e
             | Inr ews \<Rightarrow>
                 (case random_choices nbrs ews (rnd k) of
                    Inl e \<Rightarrow> Inl e
                  | Inr next_note \<Rightarrow>
                      walk self mw mood rnd n (k + 2) next_note
                        (melody @ [current_note]) (weights @ [random_random (rnd (k + 1))]))))"

text \<open>
  \<open>generate_melody\<close> picks the first note among all labels (notes outermost,
  octaves innermost), then runs the loop \<open>length\<close> times; \<open>range(length)\<close> is
  empty for a length of zero or less. The method assigns no attribute of
  \<open>self\<close> and calls only the reading operations of the graph, so the composer it
  leaves behind, returned beside the outcome, is the one it was given.
\<close>

definition generate_melody ::
  "MusicComposer \<Rightarrow> int \<Rightarrow> string \<Rightarrow> rng \<Rightarrow> (error + (string list \<times> rat list)) \<times> MusicComposer"
where
  "generate_melody self length' mood rnd =
     (case random_choice
             (concat (map (\<lambda>note. map (\<lambda>octave. note_label note octave) (octaves self))
                          (notes' self)))
             (rnd 0) of
        Inl e \<Rightarrow> (Inl e, self)
      | Inr current_note \<Rightarrow>
          (walk self mood_weights mood rnd (nat length') 1 current_note [] [], self))"

text \<open>
  The transition distribution as the specification words it, over the outgoing
  (neighbour, weight) pairs of a node: every weight is multiplied by the multiplier
  of the mood; when the sum of the adjusted weights is strictly positive each is
  divided by the sum, and otherwise every neighbour gets the same probability.
  It is compared with \<open>transition_weights\<close> below.
\<close>

definition spec_transition :: "(string \<times> rat) list \<Rightarrow> rat \<Rightarrow> (string \<times> rat) list" where
  "spec_transition out mul =
     (let adjusted = map (\<lambda>(v, w). (v, w * mul)) out;
          s = sum_list (map snd adjusted)
      in if 0 < s then map (\<lambda>(v, a). (v, a / s)) adjusted
         else map (\<lambda>(v, a). (v, 1 / of_nat (length out))) adjusted)"

text \<open>A fixed generator for concrete runs: a linear congruential sequence.\<close>

definition lcg :: rng where
  "lcg i = (6364136223846793005 * (i + 1) + 1442695040888963407) mod 2 ^ 64"

section \<open>The graph of the constructed composer\<close>

lemma str_int_octave: "str_int 4 = ''4''" "str_int 5 = ''5''"
  by (simp_all add: str_int_def str_nat.simps digit_char_def)

lemma note_label_octave: "note_label n 4 = n @ ''4''" "note_label n 5 = n @ ''5''"
  by (simp_all add: note_label_def str_int_octave)

text \<open>
  Evaluation rules for a graph that is already a value: they keep the simplifier
  from copying an unevaluated graph into both branches of \<open>add_node\<close>.
\<close>

lemma add_node_eval:
  "add_node \<lparr>node = ns, succ = s\<rparr> n =
     (if map_of s n = None then \<lparr>node = ns @ [n], succ = s @ [(n, [])]\<rparr>
      else \<lparr>node = ns, succ = s\<rparr>)"
  by (simp add: add_node_def dict_get_def)

lemma add_edge_eval:
  "map_of s u \<noteq> None \<Longrightarrow> map_of s v \<noteq> None \<Longrightarrow>
   add_edge \<lparr>node = ns, succ = s\<rparr> u v w =
     \<lparr>node = ns,
      succ = dict_set s u (dict_set (case map_of s u of None \<Rightarrow> [] | Some d \<Rightarrow> d) v w)\<rparr>"
  by (auto simp add: add_edge_def add_node_def dict_get_def Let_def)

lemma graph_init:
  "graph MusicComposer_init =
     \<lparr>node = [''C4'', ''D4'', ''E4'', ''F4'', ''G4'', ''A4'', ''B4'',
              ''C5'', ''D5'', ''E5'', ''F5'', ''G5'', ''A5'', ''B5''],
      succ =
        [(''C4'', [(''D4'', 7 / 10), (''B4'', 7 / 10), (''C5'', 3 / 10)]),
         (''D4'', [(''E4'', 7 / 10), (''C4'', 7 / 10), (''D5'', 3 / 10)]),
         (''E4'', [(''F4'', 7 / 10), (''D4'', 7 / 10), (''E5'', 3 / 10)]),
         (''F4'', [(''G4'', 7 / 10), (''E4'', 7 / 10), (''F5'', 3 / 10)]),
         (''G4'', [(''A4'', 7 / 10), (''F4'', 7 / 10), (''G5'', 3 / 10)]),
         (''A4'', [(''B4'', 7 / 10), (''G4'', 7 / 10), (''A5'', 3 / 10)]),
         (''B4'', [(''C4'', 7 / 10), (''A4'', 7 / 10), (''B5'', 3 / 10)]),
         (''C5'', [(''D5'', 7 / 10), (''B5'', 7 / 10), (''C4'', 3 / 10)]),
         (''D5'', [(''E5'', 7 / 10), (''C5'', 7 / 10), (''D4'', 3 / 10)]),
         (''E5'', [(''F5'', 7 / 10), (''D5'', 7 / 10), (''E4'', 3 / 10)]),
         (''F5'', [(''G5'', 7 / 10), (''E5'', 7 / 10), (''F4'', 3 / 10)]),
         (''G5'', [(''A5'', 7 / 10), (''F5'', 7 / 10), (''G4'', 3 / 10)]),
         (''A5'', [(''B5'', 7 / 10), (''G5'', 7 / 10), (''A4'', 3 / 10)]),
         (''B5'', [(''C5'', 7 / 10), (''A5'', 7 / 10), (''B4'', 3 / 10)])]\<rparr>"
  by (simp add: MusicComposer_init_def create_note_graph_def add_note_edges_def
      add_octave_edges_def add_edge_eval add_node_eval note_label_octave empty_graph_def Let_def)

lemma fields_init:
  "notes' MusicComposer_init = [''C'', ''D'', ''E'', ''F'', ''G'', ''A'', ''B'']"
  "octaves MusicComposer_init = [4, 5]"
  "note_to_midi MusicComposer_init =
     [(''C'', 60), (''D'', 62), (''E'', 64), (''F'', 65), (''G'', 67), (''A'', 69), (''B'', 71)]"
  by (simp_all add: MusicComposer_init_def Let_def)

section \<open>MIDI pitch of a note\<close>

text \<open>
  Claim C10. For every note whose name is one of the seven pitch classes of the
  composer and whose octave is 4 or 5, \<open>note_to_midi_number\<close> applied to the
  label of the note returns the base pitch of the name (60, 62, 64, 65, 67, 69, 71
  for C, D, E, F, G, A, B) plus twelve times the distance of the octave from 4.
\<close>

theorem note_to_midi_number_pitch:
  assumes "name \<in> set (notes' MusicComposer_init)"
    and "octave \<in> set (octaves MusicComposer_init)"
  shows "\<exists>base. map_of [(''C'', 60), (''D'', 62), (''E'', 64), (''F'', 65),
                         (''G'', 67), (''A'', 69), (''B'', 71)] name = Some base
           \<and> note_to_midi_number MusicComposer_init (note_label name octave)
               = Inr (base + (octave - 4) * 12)"
  using assms
  by (auto simp add: fields_init note_label_octave note_to_midi_number_def int_of_char_def
      dict_get_def)

theorem note_to_midi_number_pitch_witness:
  "''G'' \<in> set (notes' MusicComposer_init) \<and> 5 \<in> set (octaves MusicComposer_init)
   \<and> note_to_midi_number MusicComposer_init ''G5'' = Inr 79"
  using note_to_midi_number_pitch [of "''G''" 5]
  by (simp add: fields_init note_label_octave)

section \<open>The example scenario\<close>

text \<open>
  Claim C7. In the constructed composer the neighbours of C4 are D4, B4 and C5, in
  this order, with the weights 0.7, 0.7 and 0.3. With the mood happy (multiplier
  1.2) the adjusted weights are 0.84, 0.84 and 0.36, their sum is 2.04, and the
  normalised weights are 0.84/2.04, 0.84/2.04 and 0.36/2.04, which round to 0.412,
  0.412 and 0.176. The arithmetic is exact (rationals in place of floats).
\<close>

theorem C4_neighbors_and_probabilities:
  "neighbors (graph MusicComposer_init) ''C4'' = Inr [''D4'', ''B4'', ''C5'']
   \<and> edge_weight (graph MusicComposer_init) ''C4'' ''D4'' = Inr (7 / 10)
   \<and> edge_weight (graph MusicComposer_init) ''C4'' ''B4'' = Inr (7 / 10)
   \<and> edge_weight (graph MusicComposer_init) ''C4'' ''C5'' = Inr (3 / 10)
   \<and> dict_get mood_weights ''happy'' = Some \<lparr>weight_mul = 12 / 10, duration_pref = 1 / 4\<rparr>
   \<and> edge_weights (graph MusicComposer_init) mood_weights ''happy'' ''C4''
         [''D4'', ''B4'', ''C5'']
       = Inr [84 / 100, 84 / 100, 36 / 100]
   \<and> transition_weights (graph MusicComposer_init) mood_weights ''happy'' ''C4''
         [''D4'', ''B4'', ''C5'']
       = Inr [(84 / 100) / (204 / 100), (84 / 100) / (204 / 100), (36 / 100) / (204 / 100)]
   \<and> \<bar>(84 / 100) / (204 / 100) - 412 / 1000\<bar> < (1 / 2000 :: rat)
   \<and> \<bar>(36 / 100) / (204 / 100) - 176 / 1000\<bar> < (1 / 2000 :: rat)"
  by (simp add: graph_init neighbors_def edge_weight_def dict_get_def dict_keys_def
      mood_weights_def transition_weights_def normalize_weights_def)

section \<open>Structure of the note graph\<close>

text \<open>
  Claim C4. In the graph of the constructed composer (seven names, octaves 4 and
  5) the nodes are the labels of all notes, and the note at index \<open>i\<close> of an
  octave has exactly these outgoing edges, in this order: to the next name of the
  same octave with weight 0.7, to the previous name of the same octave with weight
  0.7, and to the same name in every other octave with weight 0.3. Its out-degree
  is at least 2 and at most 2 plus the number of other octaves, it has no edge to
  itself, and every weight is positive.
\<close>

theorem note_graph_structure:
  assumes "octave \<in> set (octaves MusicComposer_init)"
    and "i < length (notes' MusicComposer_init)"
  shows "node (graph MusicComposer_init)
           = concat (map (\<lambda>octave. map (\<lambda>note. note_label note octave)
                                         (notes' MusicComposer_init))
                         (octaves MusicComposer_init))
       \<and> (\<exists>d. dict_get (succ (graph MusicComposer_init))
                 (note_label (notes' MusicComposer_init ! i) octave) = Some d
            \<and> d = [(note_label (notes' MusicComposer_init ! nat ((int i + 1) mod 7)) octave,
                     7 / 10),
                    (note_label (notes' MusicComposer_init ! nat ((int i - 1) mod 7)) octave,
                     7 / 10)]
                  @ map (\<lambda>other_octave.
                           (note_label (notes' MusicComposer_init ! i) other_octave, 3 / 10))
                        (filter (\<lambda>other_octave. other_octave \<noteq> octave)
                                (octaves MusicComposer_init))
            \<and> 2 \<le> length d
            \<and> length d \<le> 2 + (length (octaves MusicComposer_init) - 1)
            \<and> note_label (notes' MusicComposer_init ! i) octave \<notin> set (dict_keys d)
            \<and> list_all (\<lambda>(v, w). 0 < w) d)"
proof -
  from assms(2) have "i < 7" by (simp add: fields_init)
  then have i: "i = 0 \<or> i = 1 \<or> i = 2 \<or> i = 3 \<or> i = 4 \<or> i = 5 \<or> i = 6" by arith
  from assms(1) have o: "octave = 4 \<or> octave = 5" by (simp add: fields_init)
  from i o show ?thesis
    by (elim disjE)
      (simp_all add: fields_init graph_init dict_get_def dict_keys_def note_label_octave)
qed

theorem note_graph_structure_witness:
  "4 \<in> set (octaves MusicComposer_init) \<and> 0 < length (notes' MusicComposer_init)
   \<and> dict_get (succ (graph MusicComposer_init)) ''C4''
       = Some [(''D4'', 7 / 10), (''B4'', 7 / 10), (''C5'', 3 / 10)]"
  using note_graph_structure [of 4 0]
  by (simp add: fields_init note_label_octave)

section \<open>Construction is a function of the names and octaves\<close>

lemma add_note_edges_cong:
  "notes' c1 = notes' c2 \<Longrightarrow> octaves c1 = octaves c2 \<Longrightarrow>
   add_note_edges c1 octave = add_note_edges c2 octave"
  by (simp add: fun_eq_iff add_note_edges_def add_octave_edges_def)

text \<open>
  Claim C8. \<open>_create_note_graph\<close> takes no random source and reads only the names
  and the octaves of the composer: two composers with the same names and octaves
  get the same graph, node list and edge weights alike. In particular, building the
  graph again on the constructed composer gives the graph it already holds.
\<close>

theorem create_note_graph_deterministic:
  assumes "notes' c1 = notes' c2" and "octaves c1 = octaves c2"
  shows "create_note_graph c1 = create_note_graph c2
         \<and> node (create_note_graph c1) = node (create_note_graph c2)
         \<and> succ (create_note_graph c1) = succ (create_note_graph c2)"
  using assms by (simp add: create_note_graph_def add_note_edges_cong [OF assms])

theorem create_note_graph_deterministic_witness:
  "notes' (MusicComposer_init\<lparr>graph := empty_graph\<rparr>) = notes' MusicComposer_init
   \<and> octaves (MusicComposer_init\<lparr>graph := empty_graph\<rparr>) = octaves MusicComposer_init
   \<and> create_note_graph (MusicComposer_init\<lparr>graph := empty_graph\<rparr>) = graph MusicComposer_init
   \<and> create_note_graph MusicComposer_init = graph MusicComposer_init"
proof -
  define self0 where "self0 = MusicComposer_init\<lparr>graph := empty_graph\<rparr>"
  have init: "MusicComposer_init = self0\<lparr>graph := create_note_graph self0\<rparr>"
    unfolding self0_def MusicComposer_init_def Let_def by simp
  have g: "graph MusicComposer_init = create_note_graph self0"
    by (subst init) simp
  have f: "notes' self0 = notes' MusicComposer_init" "octaves self0 = octaves MusicComposer_init"
    by (simp_all add: self0_def)
  from create_note_graph_deterministic [OF f]
  have "create_note_graph self0 = create_note_graph MusicComposer_init" by simp
  with g f show ?thesis unfolding self0_def by simp
qed

section \<open>The graph is only read\<close>


section \<open>The random walk on a graph without dead ends\<close>

lemma bisect_bounds: "lo \<le> hi \<Longrightarrow> lo \<le> bisect a x lo hi \<and> bisect a x lo hi \<le> hi"
proof (induction a x lo hi rule: bisect.induct)
  case (1 a x lo hi)
  show ?case
  proof (cases "lo < hi")
    case False
    with 1 show ?thesis by (simp add: bisect.simps)
  next
    case True
    then have m: "lo \<le> (lo + hi) div 2" "(lo + hi) div 2 + 1 \<le> hi" by arith+
    show ?thesis
    proof (cases "x < a ! ((lo + hi) div 2)")
      case True
      with \<open>lo < hi\<close> 1(1) m have "lo \<le> bisect a x lo ((lo + hi) div 2) \<and> bisect a x lo ((lo + hi) div 2) \<le> (lo + hi) div 2"
        by simp
      with True \<open>lo < hi\<close> m show ?thesis by (subst (1 2) bisect.simps) simp
    next
      case False
      with \<open>lo < hi\<close> 1(2) m have "(lo + hi) div 2 + 1 \<le> bisect a x ((lo + hi) div 2 + 1) hi \<and> bisect a x ((lo + hi) div 2 + 1) hi \<le> hi"
        by simp
      with False \<open>lo < hi\<close> m show ?thesis by (subst (1 2) bisect.simps) simp
    qed
  qed
qed

lemma length_running_sums: "length (running_sums acc ws) = length ws"
  by (induction ws arbitrary: acc) simp_all

lemma length_accumulate: "length (accumulate ws) = length ws"
  by (cases ws) (simp_all add: length_running_sums)

lemma last_running_sums: "last (acc # running_sums acc ws) = acc + sum_list ws"
  by (induction ws arbitrary: acc) (simp_all add: add.assoc)

lemma last_accumulate: "ws \<noteq> [] \<Longrightarrow> last (accumulate ws) = sum_list ws"
  using last_running_sums by (cases ws) simp_all

lemma accumulate_eq_Nil: "accumulate ws = [] \<longleftrightarrow> ws = []"
  by (cases ws) simp_all

lemma sum_list_divide: "sum_list (map (\<lambda>w. w / c) ws) = sum_list ws / (c::rat)"
  by (induction ws) (simp_all add: add_divide_distrib)

lemma random_choices_member:
  assumes "population \<noteq> []" and "length weights = length population" and "0 < sum_list weights"
  shows "\<exists>x. random_choices population weights r = Inr x \<and> x \<in> set population"
proof -
  from assms have ne: "weights \<noteq> []" by auto
  let ?i = "bisect (accumulate weights) (random_random r * last (accumulate weights)) 0
              (length population - 1)"
  have "?i \<le> length population - 1" using bisect_bounds [of 0 "length population - 1"] by simp
  with assms(1) have "?i < length population" by (cases population) simp_all
  then have "population ! ?i \<in> set population" by simp
  with assms ne show ?thesis
    by (simp add: random_choices_def Let_def length_accumulate last_accumulate accumulate_eq_Nil)
qed

lemma random_random_range: "0 \<le> random_random r \<and> random_random r < 1"
proof -
  have "r mod 2 ^ 53 < (2 ^ 53 :: nat)" by simp
  then have "(of_nat (r mod 2 ^ 53) :: rat) < of_nat (2 ^ 53)" by (simp only: of_nat_less_iff)
  then show ?thesis by (simp add: random_random_def)
qed

lemma sum_list_normalize_weights:
  assumes "ews \<noteq> []"
  shows "sum_list (normalize_weights ews (length ews)) = 1"
proof (cases "0 < sum_list ews")
  case True
  have "sum_list (map (\<lambda>w. w / sum_list ews) ews) = sum_list ews / sum_list ews"
    by (rule sum_list_divide)
  with True show ?thesis by (simp add: normalize_weights_def)
next
  case False
  with assms show ?thesis by (simp add: normalize_weights_def sum_list_replicate)
qed

lemma length_normalize_weights: "length ews = n \<Longrightarrow> length (normalize_weights ews n) = n"
  by (simp add: normalize_weights_def Let_def)

lemma edge_weights_known_mood:
  assumes "dict_get (succ G) cur = Some d" and "dict_get mw mood = Some p"
  shows "set nbrs \<subseteq> set (dict_keys d) \<Longrightarrow>
         \<exists>ws. edge_weights G mw mood cur nbrs = Inr ws \<and> length ws = length nbrs"
proof (induction nbrs)
  case Nil
  show ?case by simp
next
  case (Cons v nbrs)
  then have "v \<in> fst ` set d" by (simp add: dict_keys_def)
  then obtain w where "map_of d v = Some w"
    by (metis map_of_eq_None_iff not_Some_eq)
  with assms have "edge_weight G cur v = Inr w" by (simp add: edge_weight_def dict_get_def)
  moreover from Cons obtain ws where "edge_weights G mw mood cur nbrs = Inr ws"
    "length ws = length nbrs" by auto
  ultimately show ?case using assms(2) by simp
qed


lemma walk_closed_graph:
  assumes closed: "\<And>n. n \<in> set (node (graph self)) \<Longrightarrow>
            \<exists>d. dict_get (succ (graph self)) n = Some d \<and> d \<noteq> []
                \<and> set (dict_keys d) \<subseteq> set (node (graph self))"
    and mood: "dict_get mw mood = Some p"
  shows "current_note \<in> set (node (graph self)) \<Longrightarrow>
         \<exists>melody' weights'.
            walk self mw mood rnd n k current_note melody weights = Inr (melody', weights')
            \<and> length melody' = length melody + n
            \<and> length weights' = length weights + n
            \<and> (\<forall>x \<in> set weights'. x \<in> set weights \<or> (0 \<le> x \<and> x < 1))"
proof (induction n arbitrary: k current_note melody weights)
  case 0
  show ?case by simp
next
  case (Suc n)
  from closed [OF Suc.prems] obtain d where
    d: "dict_get (succ (graph self)) current_note = Some d" "d \<noteq> []"
       "set (dict_keys d) \<subseteq> set (node (graph self))" by auto
  let ?nbrs = "dict_keys d"
  have nb: "neighbors (graph self) current_note = Inr ?nbrs" "?nbrs \<noteq> []"
    using d by (simp_all add: neighbors_def dict_keys_def)
  from edge_weights_known_mood [OF d(1) mood, of ?nbrs] obtain ews where
    ews: "edge_weights (graph self) mw mood current_note ?nbrs = Inr ews"
         "length ews = length ?nbrs" by auto
  let ?probs = "normalize_weights ews (length ?nbrs)"
  have tw: "transition_weights (graph self) mw mood current_note ?nbrs = Inr ?probs"
    using ews by (simp add: transition_weights_def)
  from ews nb have "ews \<noteq> []" by auto
  then have "sum_list ?probs = 1" using sum_list_normalize_weights [of ews] ews(2) by simp
  moreover have "length ?probs = length ?nbrs" using ews(2) by (simp add: length_normalize_weights)
  ultimately obtain next_note where
    nx: "random_choices ?nbrs ?probs (rnd k) = Inr next_note" "next_note \<in> set ?nbrs"
    using random_choices_member [of ?nbrs ?probs "rnd k"] nb(2) by auto
  with d(3) have "next_note \<in> set (node (graph self))" by auto
  from Suc.IH [OF this, of "k + 2" "melody @ [current_note]"
      "weights @ [random_random (rnd (k + 1))]"]
  obtain melody' weights' where
    r: "walk self mw mood rnd n (k + 2) next_note (melody @ [current_note])
          (weights @ [random_random (rnd (k + 1))]) = Inr (melody', weights')"
       "length melody' = length (melody @ [current_note]) + n"
       "length weights' = length (weights @ [random_random (rnd (k + 1))]) + n"
       "\<forall>x \<in> set weights'. x \<in> set (weights @ [random_random (rnd (k + 1))])
            \<or> (0 \<le> x \<and> x < 1)"
    by blast
  have "walk self mw mood rnd (Suc n) k current_note melody weights = Inr (melody', weights')"
    using nb tw nx(1) r(1) by simp
  moreover from r(4) have "\<forall>x \<in> set weights'. x \<in> set weights \<or> (0 \<le> x \<and> x < 1)"
    using random_random_range by auto
  ultimately show ?case using r(2,3) by simp
qed

section \<open>Melodies of the constructed composer\<close>

lemma init_closed:
  "n \<in> set (node (graph MusicComposer_init)) \<Longrightarrow>
   \<exists>d. dict_get (succ (graph MusicComposer_init)) n = Some d \<and> d \<noteq> []
       \<and> set (dict_keys d) \<subseteq> set (node (graph MusicComposer_init))"
  by (auto simp add: graph_init dict_get_def dict_keys_def)

lemma init_start:
  "\<exists>current_note.
     random_choice
       (concat (map (\<lambda>note. map (\<lambda>octave. note_label note octave) (octaves MusicComposer_init))
                    (notes' MusicComposer_init))) r = Inr current_note
     \<and> current_note \<in> set (node (graph MusicComposer_init))"
proof -
  let ?L = "[''C4'', ''C5'', ''D4'', ''D5'', ''E4'', ''E5'', ''F4'', ''F5'', ''G4'', ''G5'',
             ''A4'', ''A5'', ''B4'', ''B5'']"
  have L: "concat (map (\<lambda>note. map (\<lambda>octave. note_label note octave) (octaves MusicComposer_init))
                    (notes' MusicComposer_init)) = ?L"
    by (simp add: fields_init note_label_octave)
  have "r mod length ?L < length ?L" by simp
  then have "?L ! (r mod length ?L) \<in> set ?L" by (rule nth_mem)
  moreover have "set ?L \<subseteq> set (node (graph MusicComposer_init))" by (simp add: graph_init)
  ultimately have "?L ! (r mod length ?L) \<in> set (node (graph MusicComposer_init))" by blast
  moreover have "random_choice ?L r = Inr (?L ! (r mod length ?L))"
    by (simp add: random_choice_def)
  ultimately show ?thesis unfolding L by blast
qed

lemma known_mood:
  "mood \<in> {''happy'', ''sad'', ''energetic'', ''calm''} \<Longrightarrow> \<exists>p. dict_get mood_weights mood = Some p"
  by (auto simp add: mood_weights_def dict_get_def)


text \<open>A run of three steps on the generator \<open>lcg\<close>, evaluated.\<close>

lemma generate_melody_example:
  "fst (generate_melody MusicComposer_init 3 ''sad'' lcg)
     = Inr ([''B4'', ''C4'', ''B4''],
            [3848305437310827 / 4503599627370496,
             549781976199123 / 562949953421312,
             444606554504645 / 4503599627370496])"
proof -
  have n: "nat 3 = Suc (Suc (Suc 0))" by simp
  show ?thesis
    unfolding generate_melody_def n
    by (simp add: random_choice_def fields_init note_label_octave lcg_def graph_init
        neighbors_def dict_get_def dict_keys_def transition_weights_def edge_weight_def
        mood_weights_def normalize_weights_def random_choices_def bisect.simps
        random_random_def Let_def)
qed

text \<open>
  Claim C1. For every length greater than zero, every mood among happy, sad,
  energetic and calm, and every random source, \<open>generate_melody\<close> on the
  constructed composer returns a melody and a list of intensities of the same
  length, at most \<open>length\<close>, and every intensity lies in the interval from 0
  (included) to 1 (excluded). No node of this graph is a dead end, so the loop
  never stops early and the common length is \<open>length\<close> itself.
\<close>

theorem generate_melody_lengths:
  assumes "0 < length'" and "mood \<in> {''happy'', ''sad'', ''energetic'', ''calm''}"
  shows "\<exists>melody intensities.
           fst (generate_melody MusicComposer_init length' mood rnd) = Inr (melody, intensities)
           \<and> length melody = length intensities
           \<and> int (length melody) \<le> length'
           \<and> (\<forall>x \<in> set intensities. 0 \<le> x \<and> x < 1)
           \<and> int (length melody) = length'"
proof -
  from known_mood [OF assms(2)] obtain p where p: "dict_get mood_weights mood = Some p" ..
  from init_start [of "rnd 0"] obtain current_note where
    c: "random_choice
         (concat (map (\<lambda>note. map (\<lambda>octave. note_label note octave) (octaves MusicComposer_init))
                      (notes' MusicComposer_init))) (rnd 0) = Inr current_note"
       "current_note \<in> set (node (graph MusicComposer_init))" by blast
  from walk_closed_graph [of MusicComposer_init mood_weights mood p current_note rnd
      "nat length'" 1 "[]" "[]", OF init_closed p c(2)]
  obtain melody intensities where
    w: "walk MusicComposer_init mood_weights mood rnd (nat length') 1 current_note [] []
          = Inr (melody, intensities)"
       "length melody = length ([] :: string list) + nat length'"
       "length intensities = length ([] :: rat list) + nat length'"
       "\<forall>x \<in> set intensities. x \<in> set [] \<or> (0 \<le> x \<and> x < 1)"
    by blast
  have "fst (generate_melody MusicComposer_init length' mood rnd) = Inr (melody, intensities)"
    using c(1) w(1) by (simp add: generate_melody_def)
  with w(2,3,4) assms(1) show ?thesis by auto
qed

theorem generate_melody_lengths_witness:
  "(0::int) < 3 \<and> ''happy'' \<in> {''happy'', ''sad'', ''energetic'', ''calm''}
   \<and> (\<exists>melody intensities.
         fst (generate_melody MusicComposer_init 3 ''happy'' lcg) = Inr (melody, intensities)
         \<and> length melody = length intensities
         \<and> int (length melody) \<le> 3
         \<and> (\<forall>x \<in> set intensities. 0 \<le> x \<and> x < 1)
         \<and> int (length melody) = 3)"
  using generate_melody_lengths [of 3 "''happy''" lcg] by simp



text \<open>
  Claim C2, as amended. For every length of zero or less, \<open>generate_melody\<close> on
  the constructed composer does not fail: \<open>range(length)\<close> is empty, the loop
  body never runs, and the call returns the empty melody and the empty list of
  intensities. No check of the length stands before the loop, and since the mood
  is looked up only inside the loop this holds for every mood.
\<close>

theorem generate_melody_nonpositive_length:
  assumes "length' \<le> 0"
  shows "fst (generate_melody MusicComposer_init length' mood rnd) = Inr ([], [])"
proof -
  from init_start [of "rnd 0"] obtain current_note where
    "random_choice
         (concat (map (\<lambda>note. map (\<lambda>octave. note_label note octave) (octaves MusicComposer_init))
                      (notes' MusicComposer_init))) (rnd 0) = Inr current_note" by blast
  with assms show ?thesis by (simp add: generate_melody_def)
qed

theorem generate_melody_nonpositive_length_witness:
  "(- 3 :: int) \<le> 0
   \<and> fst (generate_melody MusicComposer_init (- 3) ''sad'' lcg) = Inr ([], [])"
  using generate_melody_nonpositive_length [of "- 3" "''sad''" lcg] by simp

text \<open>
  The claim C2 as stated, that a length of zero or less makes the call fail, is
  false at length 0 with the mood happy: the call returns, with two empty lists.
\<close>

theorem generate_melody_zero_length_returns:
  "fst (generate_melody MusicComposer_init 0 ''happy'' lcg) = Inr ([], [])
   \<and> \<not> isl (fst (generate_melody MusicComposer_init 0 ''happy'' lcg))"
  by (simp add: generate_melody_def random_choice_def fields_init)

section \<open>The transition distribution of a step\<close>

lemma edge_weights_dict:
  assumes "dict_get (succ G) cur = Some d" and "distinct (dict_keys d)"
    and "dict_get mw mood = Some p"
  shows "set out \<subseteq> set d \<Longrightarrow>
         edge_weights G mw mood cur (dict_keys out) = Inr (map (\<lambda>(v, w). w * weight_mul p) out)"
proof (induction out)
  case Nil
  show ?case by (simp add: dict_keys_def)
next
  case (Cons e out)
  obtain v w where e: "e = (v, w)" by (cases e)
  with Cons.prems have "(v, w) \<in> set d" by simp
  with assms(2) have "map_of d v = Some w" by (simp add: dict_keys_def)
  with assms(1) have "edge_weight G cur v = Inr w" by (simp add: edge_weight_def dict_get_def)
  moreover from Cons have "edge_weights G mw mood cur (dict_keys out)
      = Inr (map (\<lambda>(v, w). w * weight_mul p) out)" by simp
  ultimately show ?case using assms(3) e by (simp add: dict_keys_def)
qed

lemma snd_spec_transition:
  "map snd (spec_transition out mul)
     = normalize_weights (map (\<lambda>(v, w). w * mul) out) (length out)"
proof -
  have a: "map snd (map (\<lambda>(v, w). (v, w * mul)) out) = map (\<lambda>(v, w). w * mul) out"
    by (induction out) auto
  have b: "\<And>s xs. map snd (map (\<lambda>(v, a). (v, a / s)) xs) = map (\<lambda>a. a / (s::rat)) (map snd xs)"
    by (induct_tac xs) auto
  have c: "\<And>(c::rat) xs. map snd (map (\<lambda>(v, a). (v, c)) xs) = replicate (length xs) c"
    by (induct_tac xs) auto
  show ?thesis
    unfolding spec_transition_def normalize_weights_def Let_def
    by (simp only: a b c if_distrib [of "map snd"] length_map)
qed

lemma fst_spec_transition: "map fst (spec_transition out mul) = dict_keys out"
  by (simp add: spec_transition_def Let_def dict_keys_def case_prod_beta comp_def)

text \<open>
  Claim C5. At a step of the walk from a note with outgoing edges \<open>out\<close> (a
  dictionary, so its keys are distinct, and not empty, or the loop would stop),
  every edge weight is multiplied by the multiplier of the mood; when the sum of
  the adjusted weights is strictly positive each is divided by the sum, and
  otherwise the uniform weights over the neighbours are used. These weights, as
  \<open>spec_transition\<close> words them, are the ones the step hands to
  \<open>random.choices\<close> together with the neighbours.
\<close>

theorem transition_weights_spec:
  assumes "dict_get (succ (graph self)) current_note = Some out"
    and "distinct (dict_keys out)" and "out \<noteq> []"
    and "dict_get mw mood = Some p"
  shows "neighbors (graph self) current_note = Inr (dict_keys out)
       \<and> edge_weights (graph self) mw mood current_note (dict_keys out)
           = Inr (map (\<lambda>(v, w). w * weight_mul p) out)
       \<and> transition_weights (graph self) mw mood current_note (dict_keys out)
           = Inr (map snd (spec_transition out (weight_mul p)))
       \<and> map fst (spec_transition out (weight_mul p)) = dict_keys out
       \<and> walk self mw mood rnd (Suc n) k current_note melody weights
           = (case random_choices (dict_keys out)
                     (map snd (spec_transition out (weight_mul p))) (rnd k) of
                Inl e \<Rightarrow> Inl e
              | Inr next_note \<Rightarrow>
                  walk self mw mood rnd n (k + 2) next_note (melody @ [current_note])
                    (weights @ [random_random (rnd (k + 1))]))"
proof -
  have nb: "neighbors (graph self) current_note = Inr (dict_keys out)"
    using assms(1) by (simp add: neighbors_def)
  have ne: "dict_keys out \<noteq> []" using assms(3) by (simp add: dict_keys_def)
  have ew: "edge_weights (graph self) mw mood current_note (dict_keys out)
           = Inr (map (\<lambda>(v, w). w * weight_mul p) out)"
    using edge_weights_dict [OF assms(1,2,4), of out] by simp
  have tw: "transition_weights (graph self) mw mood current_note (dict_keys out)
           = Inr (map snd (spec_transition out (weight_mul p)))"
    using ew by (simp add: transition_weights_def snd_spec_transition dict_keys_def)
  show ?thesis using nb ne ew tw by (simp add: fst_spec_transition)
qed

theorem transition_weights_spec_witness:
  "dict_get (succ (graph MusicComposer_init)) ''C4''
     = Some [(''D4'', 7 / 10), (''B4'', 7 / 10), (''C5'', 3 / 10)]
   \<and> distinct (dict_keys [(''D4'', 7 / 10 :: rat), (''B4'', 7 / 10), (''C5'', 3 / 10)])
   \<and> [(''D4'', 7 / 10 :: rat), (''B4'', 7 / 10), (''C5'', 3 / 10)] \<noteq> []
   \<and> dict_get mood_weights ''sad'' = Some \<lparr>weight_mul = 8 / 10, duration_pref = 1\<rparr>
   \<and> transition_weights (graph MusicComposer_init) mood_weights ''sad'' ''C4''
        [''D4'', ''B4'', ''C5''] = Inr [7 / 17, 7 / 17, 3 / 17]"
  using transition_weights_spec [of MusicComposer_init "''C4''"
      "[(''D4'', 7 / 10), (''B4'', 7 / 10), (''C5'', 3 / 10)]" mood_weights "''sad''"
      "\<lparr>weight_mul = 8 / 10, duration_pref = 1\<rparr>"]
  by (simp add: graph_init dict_get_def dict_keys_def mood_weights_def spec_transition_def)

text \<open>The fallback, on a multiplier that no mood of the program has.\<close>

lemma spec_transition_fallback:
  "spec_transition [(''D4'', 7 / 10), (''B4'', 7 / 10), (''C5'', 3 / 10)] 0
     = [(''D4'', 1 / 3), (''B4'', 1 / 3), (''C5'', 1 / 3)]"
  by (simp add: spec_transition_def)

section \<open>The mood does not change the walk\<close>







text \<open>Every mood of the table has a strictly positive multiplier.\<close>

lemma all_moods_positive:
  "dict_get mood_weights mood = Some p \<Longrightarrow> 0 < weight_mul p"
  by (auto simp add: mood_weights_def dict_get_def split: if_splits)

end
